theory Spec2Isabelle
  imports Main "HOL-Library.Sublist"
begin

section \<open>Values, property tables and objects\<close>

text \<open>
  The program is \<^verbatim>\<open>src/index.js\<close> (Deco 2). JavaScript values are the primitives and
  references to objects; an object lives in a heap cell and has an identity, so that
  \<^verbatim>\<open>===\<close> on two values is equality of \<open>val\<close>. Numbers are integers here (no claim
  is about arithmetic), property keys are strings.
\<close>

type_synonym addr = nat

datatype val = Undefined | Null | Bool bool | Num int | Str string | Ref addr

text \<open>\<^verbatim>\<open>!a\<close> and \<^verbatim>\<open>.filter((a) => a)\<close> test truthiness.\<close>

fun truthy :: "val \<Rightarrow> bool" where
  "truthy Undefined = False"
| "truthy Null = False"
| "truthy (Bool b) = b"
| "truthy (Num n) = (n \<noteq> 0)"
| "truthy (Str s) = (s \<noteq> [])"
| "truthy (Ref a) = True"

text \<open>
  An own property is a data property: key, value and its \<^verbatim>\<open>enumerable\<close> attribute. The
  own properties of an object are a list in creation order. Accessor properties, symbol
  keys, proxies and objects that were frozen by the caller are outside the model: every
  object the engine writes to is extensible and its properties are writable.
\<close>

datatype jsprop = Prop (pkey: string) (pval: val) (penum: bool)

type_synonym table = "jsprop list"

fun own :: "table \<Rightarrow> string \<Rightarrow> jsprop option" where
  "own [] k = None"
| "own (p # ps) k = (if pkey p = k then Some p else own ps k)"

definition entry :: "table \<Rightarrow> string \<Rightarrow> val option" where
  "entry t k = map_option pval (own t k)"

text \<open>
  \<^verbatim>\<open>target[key] = value\<close> on an ordinary object: an existing own property keeps its
  attributes and gets the value, a new one is appended, enumerable.
\<close>

fun put :: "string \<Rightarrow> val \<Rightarrow> table \<Rightarrow> table" where
  "put k v [] = [Prop k v True]"
| "put k v (p # ps) = (if pkey p = k then Prop k v (penum p) # ps else p # put k v ps)"

text \<open>
  \<^verbatim>\<open>Reflect.defineProperty(o, name, {configurable, enumerable, value, writable})\<close>: the
  property gets the value and the attribute, in place when it exists.
\<close>

fun defineProperty :: "string \<Rightarrow> val \<Rightarrow> bool \<Rightarrow> table \<Rightarrow> table" where
  "defineProperty k v e [] = [Prop k v e]"
| "defineProperty k v e (p # ps) =
     (if pkey p = k then Prop k v e # ps else p # defineProperty k v e ps)"

text \<open>
  An object: its own properties, the source text \<^verbatim>\<open>toString()\<close> gives when it is a
  function (\<open>None\<close> for an object that is not callable), and its prototype. JavaScript
  keeps every prototype chain finite and acyclic, and the engine only reads the chains of
  the decorators it is given; an object therefore holds its prototype as the parent
  object itself (\<open>None\<close> is \<^verbatim>\<open>null\<close>), and walking a chain is structural recursion.
\<close>

datatype jsobj = JSObj (props: table) (source: "string option") (parent: "jsobj option")

record heap =
  cell :: "addr \<Rightarrow> jsobj"
  top :: addr

text \<open>A \<^verbatim>\<open>throw\<close>: the engine itself raises only \<^verbatim>\<open>TypeError\<close>s (through the built-ins it
  calls); a caller's function may throw any value.\<close>

datatype exn = TypeError | Thrown val

text \<open>
  The completion of a piece of code: it returns a value or throws, and in both cases
  leaves a state behind (what it had mutated when it threw stays mutated).
\<close>

datatype ('a, 's) completion = Normal 'a 's | Abrupt exn 's

fun state_of :: "('a, 's) completion \<Rightarrow> 's" where
  "state_of (Normal x s) = s"
| "state_of (Abrupt e s) = s"

fun returned :: "('a, 's) completion \<Rightarrow> 'a option" where
  "returned (Normal x s) = Some x"
| "returned (Abrupt e s) = None"


subsection \<open>Reading properties\<close>

text \<open>Decimal keys, for the index properties of a string.\<close>

function decimal :: "nat \<Rightarrow> string" where
  "decimal n =
     (if n < 10 then [char_of (48 + n)] else decimal (n div 10) @ [char_of (48 + n mod 10)])"
  by pat_completeness auto
termination
  by (relation "measure id") auto

text \<open>
  The own properties of \<^verbatim>\<open>ToObject(v)\<close>: those of the object for a reference, the index
  properties and \<^verbatim>\<open>length\<close> for a string, none for the other primitives.
\<close>

fun own_table :: "heap \<Rightarrow> val \<Rightarrow> table" where
  "own_table h (Ref a) = props (cell h a)"
| "own_table h (Str s) =
     map (\<lambda>i. Prop (decimal i) (Str [s ! i]) True) [0..<length s]
     @ [Prop ''length'' (Num (int (length s))) False]"
| "own_table h v = []"

text \<open>\<^verbatim>\<open>Reflect.hasOwnProperty.call(v, k)\<close> is \<^verbatim>\<open>Object.prototype.hasOwnProperty\<close>: it
  throws on \<^verbatim>\<open>undefined\<close> and \<^verbatim>\<open>null\<close>.\<close>

definition hasOwnProperty :: "heap \<Rightarrow> val \<Rightarrow> string \<Rightarrow> exn + bool" where
  "hasOwnProperty h v k =
     (if v = Undefined \<or> v = Null then Inl TypeError else Inr (own (own_table h v) k \<noteq> None))"

text \<open>\<^verbatim>\<open>o[k]\<close> on an object: the own property, else the prototype's.\<close>

fun lookup :: "jsobj \<Rightarrow> string \<Rightarrow> val" where
  "lookup (JSObj ps s par) k =
     (case own ps k of
        Some p \<Rightarrow> pval p
      | None \<Rightarrow> (case par of None \<Rightarrow> Undefined | Some q \<Rightarrow> lookup q k))"

text \<open>
  \<^verbatim>\<open>v.k\<close> on any value. A property of a primitive is resolved by the language through
  the primitive's wrapper prototype (\<^verbatim>\<open>Number.prototype\<close>, ...), which is no object of
  this program: \<open>pg v k\<close> stands for that value.
\<close>

definition get :: "(val \<Rightarrow> string \<Rightarrow> val) \<Rightarrow> heap \<Rightarrow> val \<Rightarrow> string \<Rightarrow> exn + val" where
  "get pg h v k =
     (case v of
        Undefined \<Rightarrow> Inl TypeError
      | Null \<Rightarrow> Inl TypeError
      | Ref a \<Rightarrow> Inr (lookup (cell h a) k)
      | _ \<Rightarrow> Inr (pg v k))"

section \<open>The external modules\<close>

text \<open>
  Modelled from the spec: \<^verbatim>\<open>copy-properties/assign\<close> and \<^verbatim>\<open>copy-properties/copy\<close> are
  modules the program requires and are not among its sources. The spec calls what they
  do a shallow merge in which a later source wins per key; \<^verbatim>\<open>index.js\<close> uses
  \<^verbatim>\<open>Assign(target, ...sources)\<close> for its effect on \<open>target\<close> and \<^verbatim>\<open>Copy(...sources)\<close> for a
  new object. Here \<open>Assign\<close> assigns the own enumerable properties of each source, in
  order, to the target (as \<^verbatim>\<open>Object.assign\<close> does), and \<open>Copy\<close> is \<open>Assign\<close> to a new
  empty object. A source that is \<^verbatim>\<open>undefined\<close> or \<^verbatim>\<open>null\<close> has no properties.
\<close>

definition assign1 :: "table \<Rightarrow> table \<Rightarrow> table" where
  "assign1 target src = fold (\<lambda>p t. if penum p then put (pkey p) (pval p) t else t) src target"

definition Assign :: "table \<Rightarrow> table list \<Rightarrow> table" where
  "Assign target sources = foldl assign1 target sources"

definition Copy :: "table list \<Rightarrow> table" where
  "Copy sources = Assign [] sources"

section \<open>Utility functions\<close>

text \<open>\<^verbatim>\<open>const isFunction = (a) => typeof a === 'function'\<close>\<close>

definition isFunction :: "heap \<Rightarrow> val \<Rightarrow> bool" where
  "isFunction h a = (case a of Ref r \<Rightarrow> source (cell h r) \<noteq> None | _ \<Rightarrow> False)"

text \<open>
  \<^verbatim>\<open>chain\<close>: the prototype chain of a prototype, itself first. A falsy argument gives the
  empty chain; \<^verbatim>\<open>Reflect.getPrototypeOf\<close> throws on a primitive.
\<close>

fun chain_from :: "jsobj \<Rightarrow> jsobj list" where
  "chain_from (JSObj ps s par) =
     JSObj ps s par # (case par of None \<Rightarrow> [] | Some q \<Rightarrow> chain_from q)"

definition chain :: "heap \<Rightarrow> val \<Rightarrow> exn + jsobj list" where
  "chain h prototype =
     (if \<not> truthy prototype then Inr []
      else (case prototype of Ref a \<Rightarrow> Inr (chain_from (cell h a)) | _ \<Rightarrow> Inl TypeError))"

text \<open>\<^verbatim>\<open>const flatten = (prototype) => Copy(...chain(prototype).reverse())\<close>\<close>

definition flatten :: "heap \<Rightarrow> val \<Rightarrow> exn + table" where
  "flatten h prototype =
     (case chain h prototype of
        Inl e \<Rightarrow> Inl e
      | Inr objs \<Rightarrow> Inr (Copy (map props (rev objs))))"

text \<open>
  \<^verbatim>\<open>isClass\<close>: a function with an own \<^verbatim>\<open>prototype\<close> key whose text starts with
  \<^verbatim>\<open>class\<close> (\<^verbatim>\<open>a.toString().indexOf('class') === 0\<close>). \<open>toString\<close> is only taken of a
  function, where it is the source text.
\<close>

definition toString :: "heap \<Rightarrow> val \<Rightarrow> string" where
  "toString h a =
     (case a of
        Ref r \<Rightarrow> (case source (cell h r) of Some src \<Rightarrow> src | None \<Rightarrow> [])
      | _ \<Rightarrow> [])"

definition isClass :: "heap \<Rightarrow> val \<Rightarrow> bool" where
  "isClass h a =
     (if \<not> isFunction h a then False
      else if own (own_table h a) ''prototype'' = None then False
      else if take 5 (toString h a) \<noteq> ''class'' then False
      else True)"

section \<open>Factory private static members\<close>

text \<open>
  What the list \<^verbatim>\<open>secrets(factory).constructors\<close> holds: a value taken from a decorator,
  or the wrapper \<^verbatim>\<open>(...parameters) => Reflect.construct(decorator, parameters)\<close> made for
  a class and tagged \<^verbatim>\<open>isClassWrapper\<close>. The wrapper never leaves the list, so it is
  this constructor rather than a heap object.
\<close>

datatype init = Extracted val | ClassWrapper val

text \<open>
  A factory: the identities of the function objects \<^verbatim>\<open>Deco\<close> creates for it (the factory,
  the object \<^verbatim>\<open>factory.prototype\<close>, \<^verbatim>\<open>factoryConstructor\<close> and the two \<^verbatim>\<open>defaults\<close>
  functions), \<^verbatim>\<open>Deco.prototype\<close> as \<open>base\<close>, the two private tables kept by
  \<^verbatim>\<open>secrets\<close> (\<^verbatim>\<open>Bursary\<close>, an external module: a private record per object, here
  fields of the factory), the own properties of \<^verbatim>\<open>factory.prototype\<close> (the method table)
  and the own properties of the factory itself.
\<close>

record factory =
  factory_fn :: addr
  prototype_at :: addr
  constructor_fn :: addr
  defaults_fn :: addr
  static_defaults_fn :: addr
  base :: jsobj
  constructors :: "init list"
  defaults :: table
  prototype :: table
  statics :: table

text \<open>The objects \<^verbatim>\<open>factory.prototype\<close> and \<^verbatim>\<open>factory\<close> (\<^verbatim>\<open>setPrototype\<close> makes the first the
  prototype of the second).\<close>

definition prototype_object :: "factory \<Rightarrow> jsobj" where
  "prototype_object factory = JSObj (prototype factory) None (Some (base factory))"

definition factory_object :: "factory \<Rightarrow> jsobj" where
  "factory_object factory =
     JSObj (statics factory) (Some ''function factory (...parameters) {'')
       (Some (prototype_object factory))"

text \<open>
  Composition writes to the three tables of the factory only. It reads the decorators
  from the heap and leaves the heap alone: the factory is new when \<^verbatim>\<open>Deco\<close> composes it,
  so none of its own objects is among the decorators, and the objects composition creates
  on the way (the class wrappers, the flattened copies) do not outlive it as objects.
\<close>

text \<open>\<^verbatim>\<open>decorators.map(f)\<close> where \<open>f\<close> may throw: left to right, the first throw ends it.\<close>

fun map_throw :: "('a \<Rightarrow> exn + 'b) \<Rightarrow> 'a list \<Rightarrow> exn + 'b list" where
  "map_throw g [] = Inr []"
| "map_throw g (x # xs) =
     (case g x of
        Inl e \<Rightarrow> Inl e
      | Inr y \<Rightarrow> (case map_throw g xs of Inl e \<Rightarrow> Inl e | Inr ys \<Rightarrow> Inr (y # ys)))"

text \<open>The function \<^verbatim>\<open>concatenateConstructors\<close> maps over the decorators (lines 51 to 65);
  \<open>Extracted Undefined\<close> is its \<^verbatim>\<open>return undefined\<close>.\<close>

definition initializer_of :: "(val \<Rightarrow> string \<Rightarrow> val) \<Rightarrow> heap \<Rightarrow> val \<Rightarrow> exn + init" where
  "initializer_of pg h decorator =
     (case hasOwnProperty h decorator ''constructor'' of
        Inl e \<Rightarrow> Inl e
      | Inr True \<Rightarrow> map_sum id Extracted (get pg h decorator ''constructor'')
      | Inr False \<Rightarrow>
          if isFunction h decorator \<and> \<not> isClass h decorator then
            (case get pg h decorator ''prototype'' of
               Inl e \<Rightarrow> Inl e
             | Inr p \<Rightarrow>
                 if \<not> truthy p then Inr (Extracted decorator)
                 else map_sum id Extracted (get pg h p ''constructor''))
          else if isClass h decorator then Inr (ClassWrapper decorator)
          else Inr (Extracted Undefined))"

text \<open>\<^verbatim>\<open>.filter((a) => a)\<close>: a wrapper is a function, hence truthy.\<close>

fun kept :: "init \<Rightarrow> bool" where
  "kept (Extracted v) = truthy v"
| "kept (ClassWrapper d) = True"

definition concatenateConstructors ::
  "(val \<Rightarrow> string \<Rightarrow> val) \<Rightarrow> heap \<Rightarrow> factory \<Rightarrow> val list \<Rightarrow> (unit, factory) completion" where
  "concatenateConstructors pg h factory decorators =
     (case map_throw (initializer_of pg h) decorators of
        Inl e \<Rightarrow> Abrupt e factory
      | Inr fs \<Rightarrow>
          Normal () (factory\<lparr>constructors := constructors factory @ filter kept fs\<rparr>))"

definition defaults_of :: "(val \<Rightarrow> string \<Rightarrow> val) \<Rightarrow> heap \<Rightarrow> val \<Rightarrow> exn + val" where
  "defaults_of pg h decorator =
     (case hasOwnProperty h decorator ''defaults'' of
        Inl e \<Rightarrow> Inl e
      | Inr True \<Rightarrow> get pg h decorator ''defaults''
      | Inr False \<Rightarrow> Inr Undefined)"

definition concatenateDefaults ::
  "(val \<Rightarrow> string \<Rightarrow> val) \<Rightarrow> heap \<Rightarrow> factory \<Rightarrow> val list \<Rightarrow> (unit, factory) completion" where
  "concatenateDefaults pg h factory decorators =
     (case map_throw (defaults_of pg h) decorators of
        Inl e \<Rightarrow> Abrupt e factory
      | Inr ds \<Rightarrow>
          Normal () (factory\<lparr>defaults := Assign (defaults factory) (map (own_table h) ds)\<rparr>))"

definition template_of :: "(val \<Rightarrow> string \<Rightarrow> val) \<Rightarrow> heap \<Rightarrow> val \<Rightarrow> exn + table" where
  "template_of pg h decorator =
     (if isFunction h decorator then
        (case get pg h decorator ''prototype'' of Inl e \<Rightarrow> Inl e | Inr p \<Rightarrow> flatten h p)
      else Inr (own_table h decorator))"

definition concatenatePrototypes ::
  "(val \<Rightarrow> string \<Rightarrow> val) \<Rightarrow> heap \<Rightarrow> factory \<Rightarrow> val list \<Rightarrow> (unit, factory) completion" where
  "concatenatePrototypes pg h factory decorators =
     (case map_throw (template_of pg h) decorators of
        Inl e \<Rightarrow> Abrupt e factory
      | Inr ts \<Rightarrow> Normal () (factory\<lparr>prototype := Assign (prototype factory) ts\<rparr>))"

definition concatenate ::
  "(val \<Rightarrow> string \<Rightarrow> val) \<Rightarrow> heap \<Rightarrow> factory \<Rightarrow> val list \<Rightarrow> (unit, factory) completion" where
  "concatenate pg h factory decorators =
     (case concatenateConstructors pg h factory decorators of
        Abrupt e f \<Rightarrow> Abrupt e f
      | Normal u f1 \<Rightarrow>
          (case concatenateDefaults pg h f1 decorators of
             Abrupt e f \<Rightarrow> Abrupt e f
           | Normal u f2 \<Rightarrow> concatenatePrototypes pg h f2 decorators))"

section \<open>Construction\<close>

text \<open>
  The functions a caller supplies are not part of the program: \<open>ap f this args h\<close> is the
  completion of the call \<^verbatim>\<open>f.apply(this, args)\<close> in heap \<open>h\<close> (a \<^verbatim>\<open>TypeError\<close> when \<open>f\<close>
  has no callable \<^verbatim>\<open>apply\<close>), and \<open>cn f args newTarget h\<close> that of
  \<^verbatim>\<open>Reflect.construct(f, args, newTarget)\<close>. Every definition below takes them as
  parameters, and every theorem holds for all of them.
\<close>

type_synonym applier = "val \<Rightarrow> val \<Rightarrow> val list \<Rightarrow> heap \<Rightarrow> (val, heap) completion"

type_synonym constructer = "val \<Rightarrow> val list \<Rightarrow> val \<Rightarrow> heap \<Rightarrow> (val, heap) completion"

text \<open>\<^verbatim>\<open>f.apply(o, parameters)\<close> for an element of the list; the class wrapper ignores its
  receiver and constructs the class with the parameters.\<close>

fun apply_init :: "applier \<Rightarrow> constructer \<Rightarrow> init \<Rightarrow> val \<Rightarrow> val list \<Rightarrow> heap \<Rightarrow> (val, heap) completion" where
  "apply_init ap cn (Extracted f) acc parameters h = ap f acc parameters h"
| "apply_init ap cn (ClassWrapper decorator) acc parameters h = cn decorator parameters decorator h"

text \<open>
  \<^verbatim>\<open>Assign(target, ...sources)\<close> on a value of the heap. Assigning a property to a
  primitive throws in strict code; with nothing to assign the target is left alone.
\<close>

definition Assign_to :: "val \<Rightarrow> table list \<Rightarrow> heap \<Rightarrow> (unit, heap) completion" where
  "Assign_to target sources h =
     (case target of
        Ref a \<Rightarrow>
          Normal () (h\<lparr>cell := (cell h)(a :=
            JSObj (Assign (props (cell h a)) sources) (source (cell h a)) (parent (cell h a)))\<rparr>)
      | _ \<Rightarrow>
          if list_all (list_all (\<lambda>p. \<not> penum p)) sources then Normal () h
          else Abrupt TypeError h)"

text \<open>The \<^verbatim>\<open>reduce\<close> of \<^verbatim>\<open>factoryConstructor\<close> (lines 96 to 102).\<close>

fun reduce_constructors ::
  "applier \<Rightarrow> constructer \<Rightarrow> table \<Rightarrow> val list \<Rightarrow> init list \<Rightarrow> val \<Rightarrow> heap \<Rightarrow> (val, heap) completion" where
  "reduce_constructors ap cn proto parameters [] acc h = Normal acc h"
| "reduce_constructors ap cn proto parameters (f # fs) acc h =
     (case apply_init ap cn f acc parameters h of
        Abrupt e h1 \<Rightarrow> Abrupt e h1
      | Normal next h1 \<Rightarrow>
          if next = Undefined then reduce_constructors ap cn proto parameters fs acc h1
          else if next = acc then reduce_constructors ap cn proto parameters fs acc h1
          else
            (case Assign_to next [proto] h1 of
               Abrupt e h2 \<Rightarrow> Abrupt e h2
             | Normal u h2 \<Rightarrow> reduce_constructors ap cn proto parameters fs next h2))"

definition factoryConstructor ::
  "applier \<Rightarrow> constructer \<Rightarrow> factory \<Rightarrow> val \<Rightarrow> val list \<Rightarrow> heap \<Rightarrow> (val, heap) completion" where
  "factoryConstructor ap cn factory this parameters h =
     reduce_constructors ap cn (prototype factory) parameters (constructors factory) this h"

text \<open>
  The method \<^verbatim>\<open>defaults (...updates)\<close> of the prototype (lines 105 to 107): the new object
  \<^verbatim>\<open>Copy(secrets(factory).defaults, ...updates)\<close>, given as its table, and the factory
  after the call.
\<close>

definition members_defaults :: "heap \<Rightarrow> factory \<Rightarrow> val list \<Rightarrow> table \<times> factory" where
  "members_defaults h factory updates =
     (Copy (defaults factory # map (own_table h) updates), factory)"

text \<open>
  \<^verbatim>\<open>initialize\<close>: both members are defined on \<^verbatim>\<open>factory.prototype\<close> and the static
  \<^verbatim>\<open>defaults\<close> on the factory, none of them enumerable.
\<close>

definition initialize :: "factory \<Rightarrow> factory" where
  "initialize factory =
     factory\<lparr>prototype :=
               defineProperty ''defaults'' (Ref (defaults_fn factory)) False
                 (defineProperty ''constructor'' (Ref (constructor_fn factory)) False
                    (prototype factory)),
             statics :=
               defineProperty ''defaults'' (Ref (static_defaults_fn factory)) False
                 (statics factory)\<rparr>"

section \<open>Module definition\<close>

text \<open>
  The identities of the objects one call of \<^verbatim>\<open>Deco\<close> creates, and the factory before
  \<^verbatim>\<open>initialize\<close>: a function expression has the own properties \<^verbatim>\<open>length\<close>, \<^verbatim>\<open>name\<close> and
  \<^verbatim>\<open>prototype\<close>, and \<^verbatim>\<open>setPrototype\<close> has set the last to the new object
  \<^verbatim>\<open>Object.create(Deco.prototype)\<close>, which has no own property.
\<close>

record identities =
  id_factory :: addr
  id_prototype :: addr
  id_constructor :: addr
  id_defaults :: addr
  id_static_defaults :: addr

definition new_factory :: "identities \<Rightarrow> jsobj \<Rightarrow> factory" where
  "new_factory ids deco_prototype =
     \<lparr>factory_fn = id_factory ids, prototype_at = id_prototype ids,
      constructor_fn = id_constructor ids, defaults_fn = id_defaults ids,
      static_defaults_fn = id_static_defaults ids, base = deco_prototype,
      constructors = [], defaults = [], prototype = [],
      statics = [Prop ''length'' (Num 0) False, Prop ''name'' (Str ''factory'') False,
                 Prop ''prototype'' (Ref (id_prototype ids)) False]\<rparr>"

text \<open>\<^verbatim>\<open>Deco(...decorators)\<close>. The two \<^verbatim>\<open>Object.freeze\<close> calls at its end change no property;
  the factory is the state of the completion.\<close>

definition Deco ::
  "(val \<Rightarrow> string \<Rightarrow> val) \<Rightarrow> heap \<Rightarrow> identities \<Rightarrow> jsobj \<Rightarrow> val list \<Rightarrow> (unit, factory) completion" where
  "Deco pg h ids deco_prototype decorators =
     concatenate pg h (initialize (new_factory ids deco_prototype)) decorators"

text \<open>
  \<^verbatim>\<open>Reflect.construct(f, parameters, factory)\<close> in \<^verbatim>\<open>create\<close>. When \<open>f\<close> is the factory's
  own \<^verbatim>\<open>factoryConstructor\<close>, the language creates an object whose prototype is
  \<^verbatim>\<open>factory.prototype\<close>, calls the function on it, and the result is what the function
  returned when that is an object, else the new object.
\<close>

definition create ::
  "applier \<Rightarrow> constructer \<Rightarrow> factory \<Rightarrow> val \<Rightarrow> val list \<Rightarrow> heap \<Rightarrow> (val, heap) completion" where
  "create ap cn factory f parameters h =
     (if f = Ref (constructor_fn factory) then
        (let a = top h;
             h1 = h\<lparr>cell := (cell h)(a := JSObj [] None (Some (prototype_object factory))),
                    top := Suc a\<rparr>
         in case factoryConstructor ap cn factory (Ref a) parameters h1 of
              Abrupt e h2 \<Rightarrow> Abrupt e h2
            | Normal r h2 \<Rightarrow> Normal (case r of Ref b \<Rightarrow> r | _ \<Rightarrow> Ref a) h2)
      else cn f parameters (Ref (factory_fn factory)) h)"

text \<open>\<^verbatim>\<open>f.apply(this, parameters)\<close> at the end of \<^verbatim>\<open>factory\<close>.\<close>

definition invoke ::
  "applier \<Rightarrow> constructer \<Rightarrow> factory \<Rightarrow> val \<Rightarrow> val \<Rightarrow> val list \<Rightarrow> heap \<Rightarrow> (val, heap) completion" where
  "invoke ap cn factory f this parameters h =
     (if f = Ref (constructor_fn factory) then factoryConstructor ap cn factory this parameters h
      else ap f this parameters h)"

text \<open>
  The function \<^verbatim>\<open>factory\<close> (lines 147 to 168), called with receiver \<open>this\<close>: in strict
  code a plain call has \<^verbatim>\<open>this === undefined\<close>. \<^verbatim>\<open>Reflect.ownKeys\<close> throws on a
  primitive.
\<close>

definition factory_call ::
  "applier \<Rightarrow> constructer \<Rightarrow> factory \<Rightarrow> val \<Rightarrow> val list \<Rightarrow> heap \<Rightarrow> (val, heap) completion" where
  "factory_call ap cn factory this parameters h =
     (let f = lookup (prototype_object factory) ''constructor'' in
      if \<not> truthy this then create ap cn factory f parameters h
      else
        (case this of
           Ref a \<Rightarrow>
             if list_ex (\<lambda>p. pval p = Ref (factory_fn factory)) (props (cell h a))
             then create ap cn factory f parameters h
             else
               (case Assign_to this [prototype factory] h of
                  Abrupt e h1 \<Rightarrow> Abrupt e h1
                | Normal u h1 \<Rightarrow> invoke ap cn factory f this parameters h1)
         | _ \<Rightarrow> Abrupt TypeError h))"

text \<open>
  The static \<^verbatim>\<open>defaults (...updates)\<close> of a factory (lines 112 to 116), called on the factory
  \<open>this\<close>: \<^verbatim>\<open>Deco(this, { defaults: Copy(secrets(this).defaults, ...updates) })\<close>. \<^verbatim>\<open>Deco\<close>
  reads its decorators from the heap, so the heap holds the objects of \<open>this\<close> (the
  factory, its prototype, and its static \<^verbatim>\<open>defaults\<close>, a method and so without a
  \<^verbatim>\<open>prototype\<close> of its own) and the two new objects, the copy and the object literal around
  it; the prototype of a new object is \<^verbatim>\<open>Object.prototype\<close>, the end of the chain of
  \<^verbatim>\<open>Deco.prototype\<close>. The result is the completion of \<^verbatim>\<open>Deco\<close> (the new factory), the
  factory the operation was called on, and the heap.
\<close>

definition statics_defaults ::
  "(val \<Rightarrow> string \<Rightarrow> val) \<Rightarrow> heap \<Rightarrow> identities \<Rightarrow> factory \<Rightarrow> val list \<Rightarrow>
     (unit, factory) completion \<times> factory \<times> heap" where
  "statics_defaults pg h ids this updates =
     (let copy = top h;
          literal = Suc (top h);
          object_prototype = last (chain_from (base this));
          h1 = h\<lparr>cell := (cell h)
                 (factory_fn this := factory_object this,
                  prototype_at this := prototype_object this,
                  static_defaults_fn this :=
                    JSObj [Prop ''length'' (Num 0) False, Prop ''name'' (Str ''defaults'') False]
                      (Some ''defaults (...updates) {'') (parent (base this)),
                  copy :=
                    JSObj (Copy (defaults this # map (own_table h) updates)) None
                      (Some object_prototype),
                  literal := JSObj [Prop ''defaults'' (Ref copy) True] None (Some object_prototype)),
                 top := Suc (Suc (top h))\<rparr>
      in (Deco pg h1 ids (base this) [Ref (factory_fn this), Ref literal], this, h1))"

section \<open>Notions the claims are stated with\<close>

text \<open>
  A table read as a map: \<open>entry\<close> (above) gives the value of an own key, \<open>attribute\<close>
  whether it is enumerable, \<open>enum_entry\<close> the value of an own enumerable key (the entries
  \<open>Assign\<close> and \<open>Copy\<close> take from a source).
\<close>

definition attribute :: "table \<Rightarrow> string \<Rightarrow> bool option" where
  "attribute t k = map_option penum (own t k)"

fun enum_entry :: "table \<Rightarrow> string \<Rightarrow> val option" where
  "enum_entry [] k = None"
| "enum_entry (p # ps) k =
     (case enum_entry ps k of
        Some v \<Rightarrow> Some v
      | None \<Rightarrow> if penum p \<and> pkey p = k then Some (pval p) else None)"

text \<open>
  The spec's merged table of an ancestry: walking the templates in the given order, the
  entries of each step override those of the steps before it.
\<close>

definition merged :: "table list \<Rightarrow> string \<Rightarrow> val option" where
  "merged levels = foldl (\<lambda>m t. m ++ enum_entry t) Map.empty levels"



text \<open>Composing a first list of decorators and then a second one; a throw of the first
  call ends the sequence.\<close>

definition concatenate_twice ::
  "(val \<Rightarrow> string \<Rightarrow> val) \<Rightarrow> heap \<Rightarrow> factory \<Rightarrow> val list \<Rightarrow> val list \<Rightarrow> (unit, factory) completion" where
  "concatenate_twice pg h factory first second =
     (case concatenate pg h factory first of
        Abrupt e f \<Rightarrow> Abrupt e f
      | Normal u f \<Rightarrow> concatenate pg h f second)"





text \<open>
  The \<^verbatim>\<open>defaults\<close> operation as the spec has it: the updates are merged into the private
  table, and the merged table is returned.
\<close>

definition claimed_defaults :: "heap \<Rightarrow> factory \<Rightarrow> val list \<Rightarrow> table \<times> factory" where
  "claimed_defaults h factory updates =
     (let t = Assign (defaults factory) (map (own_table h) updates)
      in (t, factory\<lparr>defaults := t\<rparr>))"

text \<open>What \<^verbatim>\<open>initialize\<close> establishes on a method table: both members are there, not
  enumerable, and no key occurs twice.\<close>

definition installed :: "table \<Rightarrow> bool" where
  "installed t =
     (attribute t ''constructor'' = Some False \<and> attribute t ''defaults'' = Some False
      \<and> distinct (map pkey t))"

section \<open>A small world for the concrete instances\<close>

text \<open>
  The built-in prototypes, \<^verbatim>\<open>Deco.prototype\<close> (line 184: \<^verbatim>\<open>Object.create(Function.prototype)\<close>)
  and a heap of thirty objects: plain objects, an array, two legacy constructors with
  their templates, a class, and some functions whose behaviour \<open>ex_apply\<close> gives.
\<close>

definition ex_object_prototype :: jsobj where
  "ex_object_prototype =
     JSObj [Prop ''toString'' (Ref 91) False, Prop ''hasOwnProperty'' (Ref 92) False] None None"

definition ex_function_prototype :: jsobj where
  "ex_function_prototype =
     JSObj [Prop ''apply'' (Ref 93) False, Prop ''call'' (Ref 94) False] None
       (Some ex_object_prototype)"

definition ex_base :: jsobj where
  "ex_base = JSObj [] None (Some ex_function_prototype)"

definition ex_fn :: "string \<Rightarrow> jsobj" where
  "ex_fn src =
     JSObj [Prop ''length'' (Num 0) False, Prop ''name'' (Str ''f'') False] (Some src)
       (Some ex_function_prototype)"

definition ex_ctor :: "string \<Rightarrow> addr \<Rightarrow> jsobj" where
  "ex_ctor src template =
     JSObj [Prop ''length'' (Num 0) False, Prop ''name'' (Str ''F'') False,
            Prop ''prototype'' (Ref template) False] (Some src)
       (Some ex_function_prototype)"

text \<open>The template of \<open>Parent\<close> (function 13), which the template of \<open>F\<close> (function 10,
  template 3) extends; \<open>G\<close> (function 15, template 5) extends it without a constructor
  of its own.\<close>

definition ex_parent_template :: jsobj where
  "ex_parent_template =
     JSObj [Prop ''constructor'' (Ref 13) False, Prop ''sing'' (Ref 19) True,
            Prop ''dance'' (Ref 12) True] None (Some ex_object_prototype)"

definition ex_heap :: heap where
  "ex_heap =
     \<lparr>cell = (\<lambda>a. JSObj [] None (Some ex_object_prototype))
        (2 := JSObj [Prop ''genre'' (Str ''reggae'') True, Prop ''artist'' (Str ''midnite'') True]
                None (Some ex_object_prototype),
         3 := JSObj [Prop ''constructor'' (Ref 10) False, Prop ''sing'' (Ref 12) True]
                None (Some ex_parent_template),
         4 := JSObj [Prop ''constructor'' (Ref 11) True, Prop ''defaults'' (Ref 2) True,
                     Prop ''greet'' (Ref 12) True] None (Some ex_object_prototype),
         5 := JSObj [] None (Some ex_parent_template),
         6 := JSObj [Prop ''constructor'' (Ref 14) False, Prop ''hum'' (Ref 12) False]
                None (Some ex_object_prototype),
         7 := JSObj [Prop ''Factory'' (Ref 100) True] None (Some ex_object_prototype),
         8 := JSObj [Prop ''label'' (Str ''gargamel records'') True,
                     Prop ''artist'' (Str ''lutan fyah'') True] None (Some ex_object_prototype),
         10 := ex_ctor ''function F () {}'' 3,
         11 := ex_fn ''constructor () {}'',
         12 := ex_fn ''() => {}'',
         13 := ex_ctor ''function Parent () {}'' 9,
         14 := ex_ctor ''class K {}'' 6,
         15 := ex_ctor ''function G () {}'' 5,
         16 := ex_fn ''() => wrapper'',
         17 := ex_fn ''(options) => options'',
         18 := ex_fn ''(options, protect) => protect'',
         19 := ex_fn ''() => {}'',
         20 := JSObj [Prop ''defaults'' (Ref 8) True] None (Some ex_object_prototype),
         21 := JSObj [Prop ''0'' (Str ''barron von beluga'') True, Prop ''length'' (Num 1) False]
                 None (Some ex_object_prototype)),
      top = 30\<rparr>"

definition ex_pg :: "val \<Rightarrow> string \<Rightarrow> val" where
  "ex_pg v k = Undefined"

definition ex_ids :: identities where
  "ex_ids = \<lparr>id_factory = 100, id_prototype = 101, id_constructor = 102, id_defaults = 103,
            id_static_defaults = 104\<rparr>"

text \<open>
  Function 16 returns object 2, function 17 its first argument, function 18 its second
  argument; every other function returns \<^verbatim>\<open>undefined\<close>. No function of this world is
  constructed.
\<close>

definition ex_apply :: applier where
  "ex_apply f this args h =
     (if f = Ref 16 then Normal (Ref 2) h
      else if f = Ref 17 then Normal (case args of [] \<Rightarrow> Undefined | x # xs \<Rightarrow> x) h
      else if f = Ref 18 then Normal (case args of x # y # ys \<Rightarrow> y | _ \<Rightarrow> Undefined) h
      else Normal Undefined h)"

definition ex_construct :: constructer where
  "ex_construct f args nt h = Abrupt TypeError h"

text \<open>A factory as \<^verbatim>\<open>Deco()\<close> leaves it, before any decorator.\<close>

definition ex_factory :: factory where
  "ex_factory = initialize (new_factory ex_ids ex_base)"


definition ex_probing_factory :: factory where
  "ex_probing_factory = ex_factory\<lparr>constructors := [Extracted (Ref 18)]\<rparr>"


definition ex_ids2 :: identities where
  "ex_ids2 = \<lparr>id_factory = 200, id_prototype = 201, id_constructor = 202, id_defaults = 203,
             id_static_defaults = 204\<rparr>"


section \<open>Lemmas: property tables\<close>

lemma own_put: "own (put k v t) k' =
  (if k' = k then Some (Prop k v (case own t k of Some p \<Rightarrow> penum p | None \<Rightarrow> True)) else own t k')"
  by (induction t) auto

lemma entry_put: "entry (put k v t) k' = (if k' = k then Some v else entry t k')"
  by (simp add: entry_def own_put)

lemma attribute_put:
  "attribute (put k v t) k' =
     (if k' = k then Some (case attribute t k of Some e \<Rightarrow> e | None \<Rightarrow> True) else attribute t k')"
  by (simp add: attribute_def own_put split: option.splits)


lemma own_None_keys: "(own t k = None) = (k \<notin> pkey ` set t)"
  by (induction t) auto

lemma keys_put: "pkey ` set (put k v t) = insert k (pkey ` set t)"
  by (induction t) auto

lemma distinct_put: "distinct (map pkey t) \<Longrightarrow> distinct (map pkey (put k v t))"
  by (induction t) (auto simp: keys_put)

lemma enum_entry_None_keys: "k \<notin> pkey ` set t \<Longrightarrow> enum_entry t k = None"
  by (induction t) (auto split: option.splits)

lemma enum_entry_distinct:
  "distinct (map pkey t) \<Longrightarrow>
     enum_entry t k =
       (case own t k of Some p \<Rightarrow> if penum p then Some (pval p) else None | None \<Rightarrow> None)"
proof (induction t)
  case Nil
  then show ?case by simp
next
  case (Cons p ps)
  then show ?case
    by (auto simp: enum_entry_None_keys own_None_keys [symmetric] split: option.splits)
qed

lemma penum_put: "list_all penum t \<Longrightarrow> list_all penum (put k v t)"
  by (induction t) auto

lemma assign1_invariants:
  "distinct (map pkey t) \<Longrightarrow> distinct (map pkey (assign1 t src))"
  "list_all penum t \<Longrightarrow> list_all penum (assign1 t src)"
  unfolding assign1_def
  by (induction src arbitrary: t) (simp_all add: distinct_put penum_put)

lemma Assign_invariants:
  "distinct (map pkey t) \<Longrightarrow> distinct (map pkey (Assign t srcs))"
  "list_all penum t \<Longrightarrow> list_all penum (Assign t srcs)"
  unfolding Assign_def
  by (induction srcs arbitrary: t) (simp_all add: assign1_invariants)



lemma entry_fold_put:
  "entry (fold (\<lambda>p t. if penum p then put (pkey p) (pval p) t else t) src t) k =
     (case enum_entry src k of Some v \<Rightarrow> Some v | None \<Rightarrow> entry t k)"
proof (induction src arbitrary: t)
  case Nil
  then show ?case by simp
next
  case (Cons p ps)
  then show ?case by (auto simp: entry_put split: option.splits)
qed

lemma entry_assign1: "entry (assign1 t src) = entry t ++ enum_entry src"
  by (rule ext) (simp add: assign1_def entry_fold_put map_add_def)

lemma entry_Assign: "entry (Assign t srcs) = foldl (\<lambda>m s. m ++ enum_entry s) (entry t) srcs"
  unfolding Assign_def
  by (induction srcs arbitrary: t) (simp_all add: entry_assign1)

lemma entry_Nil: "entry [] = Map.empty"
  by (rule ext) (simp add: entry_def)

lemma entry_Copy: "entry (Copy srcs) = merged srcs"
  by (simp add: Copy_def entry_Assign merged_def entry_Nil)


lemma keys_assign1: "pkey ` set t \<subseteq> pkey ` set (assign1 t src)"
  unfolding assign1_def
proof (induction src arbitrary: t)
  case Nil
  then show ?case by simp
next
  case (Cons p ps)
  have "pkey ` set t \<subseteq> pkey ` set (if penum p then put (pkey p) (pval p) t else t)"
    by (auto simp: keys_put)
  also have "\<dots> \<subseteq> pkey ` set (fold (\<lambda>p t. if penum p then put (pkey p) (pval p) t else t) ps
      (if penum p then put (pkey p) (pval p) t else t))"
    by (rule Cons.IH)
  finally show ?case by simp
qed

lemma keys_Assign: "pkey ` set t \<subseteq> pkey ` set (Assign t srcs)"
  unfolding Assign_def
proof (induction srcs arbitrary: t)
  case Nil
  then show ?case by simp
next
  case (Cons s srcs)
  have "pkey ` set t \<subseteq> pkey ` set (assign1 t s)" by (rule keys_assign1)
  also have "\<dots> \<subseteq> pkey ` set (foldl assign1 (assign1 t s) srcs)" by (rule Cons.IH)
  finally show ?case by simp
qed

section \<open>Lemmas: composition\<close>


lemma all2_map_throw:
  "list_all2 (\<lambda>x y. g x = Inr y) xs ys \<Longrightarrow> map_throw g xs = Inr ys"
  by (induction xs ys rule: list_all2_induct) simp_all


lemma concatenate_unfold:
  "concatenate pg h f ds =
     (case map_throw (initializer_of pg h) ds of
        Inl e \<Rightarrow> Abrupt e f
      | Inr fs \<Rightarrow>
         (case map_throw (defaults_of pg h) ds of
            Inl e \<Rightarrow> Abrupt e (f\<lparr>constructors := constructors f @ filter kept fs\<rparr>)
          | Inr dd \<Rightarrow>
             (case map_throw (template_of pg h) ds of
                Inl e \<Rightarrow> Abrupt e (f\<lparr>constructors := constructors f @ filter kept fs,
                                       defaults := Assign (defaults f) (map (own_table h) dd)\<rparr>)
              | Inr ts \<Rightarrow> Normal () (f\<lparr>constructors := constructors f @ filter kept fs,
                                       defaults := Assign (defaults f) (map (own_table h) dd),
                                       prototype := Assign (prototype f) ts\<rparr>))))"
  by (simp add: concatenate_def concatenateConstructors_def
      concatenateDefaults_def concatenatePrototypes_def split: sum.splits)


lemma constructors_concatenate:
  "constructors (state_of (concatenate pg h f ds)) =
     constructors f @ (case map_throw (initializer_of pg h) ds of Inl e \<Rightarrow> [] | Inr fs \<Rightarrow> filter kept fs)"
  unfolding concatenate_unfold by (simp split: sum.splits)

lemma defaults_keys_concatenate:
  "pkey ` set (defaults f) \<subseteq> pkey ` set (defaults (state_of (concatenate pg h f ds)))"
  unfolding concatenate_unfold by (simp add: keys_Assign split: sum.splits)








section \<open>Flattening\<close>










section \<open>The pipeline\<close>
















section \<open>Lemmas: what composition throws\<close>



















section \<open>The factory's accessors\<close>

lemma statics_concatenate: "statics (state_of (concatenate pg h f ds)) = statics f"
  unfolding concatenate_unfold by (simp split: sum.splits)

lemma members_defaults_keeps: "snd (members_defaults h f updates) = f"
  by (simp add: members_defaults_def)

text \<open>
  Claim C4, as amended. A built factory has no \<^verbatim>\<open>decorators\<close> accessor: its own
  properties are \<^verbatim>\<open>length\<close>, \<^verbatim>\<open>name\<close>, \<^verbatim>\<open>prototype\<close> and \<^verbatim>\<open>defaults\<close>, whatever
  it was built from. The private tables change in composition only, which appends to the
  initializer list (the list before is a prefix of the list after) and removes no key of
  the defaults table; the \<^verbatim>\<open>defaults\<close> method of the prototype leaves the factory as it
  was.
\<close>

theorem factory_has_no_decorators_accessor_and_tables_only_grow:
  "map pkey (statics (state_of (Deco pg h ids dp ds))) =
     [''length'', ''name'', ''prototype'', ''defaults'']
   \<and> prefix (constructors f) (constructors (state_of (concatenate pg h f ds)))
   \<and> pkey ` set (defaults f) \<subseteq> pkey ` set (defaults (state_of (concatenate pg h f ds)))
   \<and> snd (members_defaults h f updates) = f"
proof (intro conjI)
  show "map pkey (statics (state_of (Deco pg h ids dp ds))) =
      [''length'', ''name'', ''prototype'', ''defaults'']"
    by (simp add: Deco_def statics_concatenate initialize_def new_factory_def)
next
  show "prefix (constructors f) (constructors (state_of (concatenate pg h f ds)))"
    by (simp add: constructors_concatenate)
next
  show "pkey ` set (defaults f) \<subseteq> pkey ` set (defaults (state_of (concatenate pg h f ds)))"
    by (rule defaults_keys_concatenate)
next
  show "snd (members_defaults h f updates) = f"
    by (rule members_defaults_keeps)
qed

section \<open>Facts of the small world\<close>

lemma ex_cells:
  "cell ex_heap 21 = JSObj [Prop ''0'' (Str ''barron von beluga'') True, Prop ''length'' (Num 1) False]
                None (Some ex_object_prototype)"
  "cell ex_heap 2 = JSObj [Prop ''genre'' (Str ''reggae'') True, Prop ''artist'' (Str ''midnite'') True]
                None (Some ex_object_prototype)"
  "cell ex_heap 3 = JSObj [Prop ''constructor'' (Ref 10) False, Prop ''sing'' (Ref 12) True]
                None (Some ex_parent_template)"
  "cell ex_heap 4 = JSObj [Prop ''constructor'' (Ref 11) True, Prop ''defaults'' (Ref 2) True,
                     Prop ''greet'' (Ref 12) True] None (Some ex_object_prototype)"
  "cell ex_heap 5 = JSObj [] None (Some ex_parent_template)"
  "cell ex_heap 8 = JSObj [Prop ''label'' (Str ''gargamel records'') True,
                     Prop ''artist'' (Str ''lutan fyah'') True] None (Some ex_object_prototype)"
  "cell ex_heap 10 = ex_ctor ''function F () {}'' 3"
  "cell ex_heap 12 = ex_fn ''() => {}''"
  "cell ex_heap 14 = ex_ctor ''class K {}'' 6"
  "cell ex_heap 15 = ex_ctor ''function G () {}'' 5"
  "cell ex_heap 20 = JSObj [Prop ''defaults'' (Ref 8) True] None (Some ex_object_prototype)"
  "cell ex_heap 0 = JSObj [] None (Some ex_object_prototype)"
  "cell ex_heap 7 = JSObj [Prop ''Factory'' (Ref 100) True] None (Some ex_object_prototype)"
  "top ex_heap = 30"
  by (simp_all add: ex_heap_def)

lemmas ex_objects = ex_fn_def ex_ctor_def ex_function_prototype_def ex_object_prototype_def
  ex_parent_template_def

lemmas classify_defs = initializer_of_def defaults_of_def template_of_def hasOwnProperty_def
  get_def isFunction_def isClass_def toString_def flatten_def chain_def Copy_def Assign_def assign1_def

lemma ex_initializer_of:
  "initializer_of ex_pg ex_heap (Ref 21) = Inr (Extracted Undefined)"
  "initializer_of ex_pg ex_heap (Ref 4) = Inr (Extracted (Ref 11))"
  "initializer_of ex_pg ex_heap (Ref 10) = Inr (Extracted (Ref 10))"
  "initializer_of ex_pg ex_heap (Ref 12) = Inr (Extracted (Ref 12))"
  "initializer_of ex_pg ex_heap (Ref 14) = Inr (ClassWrapper (Ref 14))"
  "initializer_of ex_pg ex_heap (Ref 15) = Inr (Extracted (Ref 13))"
  "initializer_of ex_pg ex_heap (Ref 20) = Inr (Extracted Undefined)"
  by (simp_all add: classify_defs ex_cells ex_objects)

lemma ex_defaults_of:
  "defaults_of ex_pg ex_heap (Ref 21) = Inr Undefined"
  "defaults_of ex_pg ex_heap (Ref 4) = Inr (Ref 2)"
  "defaults_of ex_pg ex_heap (Ref 10) = Inr Undefined"
  "defaults_of ex_pg ex_heap (Ref 20) = Inr (Ref 8)"
  by (simp_all add: classify_defs ex_cells ex_objects)

lemma ex_template_of:
  "template_of ex_pg ex_heap (Ref 21) = Inr (props (cell ex_heap 21))"
  "template_of ex_pg ex_heap (Ref 4) = Inr (props (cell ex_heap 4))"
  "template_of ex_pg ex_heap (Ref 10) =
     Inr [Prop ''sing'' (Ref 12) True, Prop ''dance'' (Ref 12) True]"
  "template_of ex_pg ex_heap (Ref 20) = Inr (props (cell ex_heap 20))"
  by (simp_all add: classify_defs ex_cells ex_objects)

lemma ex_factory_fields:
  "constructors ex_factory = []" "defaults ex_factory = []"
  "prototype ex_factory =
     [Prop ''constructor'' (Ref 102) False, Prop ''defaults'' (Ref 103) False]"
  "constructor_fn ex_factory = 102" "factory_fn ex_factory = 100"
  "base ex_factory = ex_base"
  by (simp_all add: ex_factory_def initialize_def new_factory_def ex_ids_def)



text \<open>
  Claim C4 as stated fails: on a factory built from no decorator, \<^verbatim>\<open>decorators\<close> is
  \<^verbatim>\<open>undefined\<close> (neither the factory nor its prototype chain has the key); and the
  value of a defaults key is replaced when a later composition brings the key again.
\<close>

theorem accessors_counterexample:
  "lookup (factory_object (state_of (Deco ex_pg ex_heap ex_ids ex_base []))) ''decorators'' =
     Undefined
   \<and> entry (defaults (state_of (concatenate ex_pg ex_heap ex_factory [Ref 4]))) ''artist'' =
       Some (Str ''midnite'')
   \<and> entry (defaults (state_of (concatenate_twice ex_pg ex_heap ex_factory [Ref 4] [Ref 20])))
       ''artist'' = Some (Str ''lutan fyah'')"
  by (simp add: Deco_def concatenate_twice_def concatenate_unfold
      ex_initializer_of ex_defaults_of ex_template_of ex_cells
      initialize_def new_factory_def ex_factory_def ex_base_def ex_objects
      Assign_def assign1_def factory_object_def prototype_object_def entry_def)

theorem accessors_witness:
  "map pkey (statics (state_of (Deco ex_pg ex_heap ex_ids ex_base [Ref 10, Ref 4]))) =
     [''length'', ''name'', ''prototype'', ''defaults'']
   \<and> constructors (state_of (concatenate ex_pg ex_heap ex_probing_factory [Ref 10, Ref 4])) =
       [Extracted (Ref 18), Extracted (Ref 10), Extracted (Ref 11)]
   \<and> prefix (constructors ex_probing_factory)
       (constructors (state_of (concatenate ex_pg ex_heap ex_probing_factory [Ref 10, Ref 4])))
   \<and> snd (members_defaults ex_heap ex_probing_factory [Ref 2]) = ex_probing_factory"
  using factory_has_no_decorators_accessor_and_tables_only_grow
      [of ex_pg ex_heap ex_ids ex_base "[Ref 10, Ref 4]" ex_probing_factory "[Ref 2]"]
  by (simp add: constructors_concatenate ex_initializer_of ex_probing_factory_def)





section \<open>Invocation\<close>


lemma Assign_to_Ref:
  "Assign_to (Ref a) [t] h =
     Normal () (h\<lparr>cell := (cell h)(a :=
       JSObj (assign1 (props (cell h a)) t) (source (cell h a)) (parent (cell h a)))\<rparr>)"
  by (simp add: Assign_to_def Assign_def)





section \<open>The defaults operations\<close>

lemma entry_members_defaults:
  "entry (fst (members_defaults h F updates)) = merged (defaults F # map (own_table h) updates)"
  by (simp add: members_defaults_def entry_Copy)

lemma merged_later_wins:
  "enum_entry B k = Some v \<Longrightarrow> merged [D, A, B] k = Some v"
  by (simp add: merged_def map_add_def)

lemma merged_single: "merged [[], A] = enum_entry A"
  by (rule ext) (simp add: merged_def map_add_def split: option.splits)

text \<open>
  Claim C9, as amended. Neither \<^verbatim>\<open>defaults\<close> operation merges into the private defaults
  table. The \<^verbatim>\<open>defaults\<close> method of the prototype returns a new table, the shallow merge
  \<open>Copy\<close> of the private table and the updates in order: for a key of two sources the
  later value wins, and with an empty private table \<^verbatim>\<open>defaults(A)\<close> returns exactly the
  own enumerable entries of \<open>A\<close>; the factory is left as it was, so a later read does not
  see \<open>A\<close>. The static \<^verbatim>\<open>defaults\<close> of a factory builds another factory and leaves the
  one it was called on as it was.
\<close>

theorem defaults_returns_a_merged_copy:
  "snd (members_defaults h F updates) = F
   \<and> fst (members_defaults h F updates) = Copy (defaults F # map (own_table h) updates)
   \<and> entry (fst (members_defaults h F updates)) =
       merged (defaults F # map (own_table h) updates)
   \<and> (enum_entry (own_table h B) k = Some v \<longrightarrow>
        entry (fst (members_defaults h F [A, B])) k = Some v)
   \<and> (defaults F = [] \<longrightarrow>
        entry (fst (members_defaults h F [A])) = enum_entry (own_table h A))
   \<and> fst (snd (statics_defaults pg h ids F updates)) = F"
proof (intro conjI impI)
  show "snd (members_defaults h F updates) = F"
    by (simp add: members_defaults_def)
next
  show "fst (members_defaults h F updates) = Copy (defaults F # map (own_table h) updates)"
    by (simp add: members_defaults_def)
next
  show "entry (fst (members_defaults h F updates)) =
      merged (defaults F # map (own_table h) updates)"
    by (rule entry_members_defaults)
next
  assume "enum_entry (own_table h B) k = Some v"
  then show "entry (fst (members_defaults h F [A, B])) k = Some v"
    by (simp add: entry_members_defaults merged_later_wins)
next
  assume "defaults F = []"
  then show "entry (fst (members_defaults h F [A])) = enum_entry (own_table h A)"
    by (simp add: entry_members_defaults merged_single)
next
  show "fst (snd (statics_defaults pg h ids F updates)) = F"
    by (simp add: statics_defaults_def Let_def)
qed

theorem defaults_witness:
  "enum_entry (own_table ex_heap (Ref 8)) ''artist'' = Some (Str ''lutan fyah'')
   \<and> entry (fst (members_defaults ex_heap ex_factory [Ref 2, Ref 8])) ''artist'' =
       Some (Str ''lutan fyah'')
   \<and> defaults ex_factory = []
   \<and> entry (fst (members_defaults ex_heap ex_factory [Ref 2])) =
       enum_entry (own_table ex_heap (Ref 2))
   \<and> fst (members_defaults ex_heap ex_factory [Ref 2]) =
       [Prop ''genre'' (Str ''reggae'') True, Prop ''artist'' (Str ''midnite'') True]"
proof -
  have a: "enum_entry (own_table ex_heap (Ref 8)) ''artist'' = Some (Str ''lutan fyah'')"
    by (simp add: ex_cells)
  have b: "defaults ex_factory = []"
    by (simp add: ex_factory_fields)
  note t = defaults_returns_a_merged_copy
      [of ex_heap ex_factory "[Ref 2]" "Ref 8" "''artist''" "Str ''lutan fyah''" "Ref 2"]
  from a t have c: "entry (fst (members_defaults ex_heap ex_factory [Ref 2, Ref 8])) ''artist'' =
       Some (Str ''lutan fyah'')"
    by blast
  from b t have d: "entry (fst (members_defaults ex_heap ex_factory [Ref 2])) =
       enum_entry (own_table ex_heap (Ref 2))"
    by blast
  have e: "fst (members_defaults ex_heap ex_factory [Ref 2]) =
       [Prop ''genre'' (Str ''reggae'') True, Prop ''artist'' (Str ''midnite'') True]"
    by (simp add: members_defaults_def ex_factory_fields ex_cells Copy_def Assign_def assign1_def)
  from a b c d e show ?thesis by blast
qed

text \<open>
  Claim C9 as stated fails: \<^verbatim>\<open>defaults(A)\<close> on the prototype returns \<open>A\<close>, but the read
  that follows returns the empty table (as the spec has it, it would return \<open>A\<close>); the
  static \<^verbatim>\<open>defaults(A)\<close> returns a factory, another one (its identity is 200), and the
  private table of the factory it was called on is still empty.
\<close>

theorem defaults_counterexample:
  "fst (members_defaults ex_heap ex_factory [Ref 2]) =
     [Prop ''genre'' (Str ''reggae'') True, Prop ''artist'' (Str ''midnite'') True]
   \<and> fst (members_defaults ex_heap (snd (members_defaults ex_heap ex_factory [Ref 2])) []) = []
   \<and> fst (claimed_defaults ex_heap (snd (claimed_defaults ex_heap ex_factory [Ref 2])) []) =
       [Prop ''genre'' (Str ''reggae'') True, Prop ''artist'' (Str ''midnite'') True]
   \<and> defaults (fst (snd (statics_defaults ex_pg ex_heap ex_ids2 ex_factory [Ref 2]))) = []
   \<and> factory_fn (state_of (fst (statics_defaults ex_pg ex_heap ex_ids2 ex_factory [Ref 2]))) = 200"
  by (simp add: members_defaults_def claimed_defaults_def statics_defaults_def Let_def
      ex_factory_fields ex_cells Copy_def Assign_def assign1_def Deco_def statics_concatenate
      concatenate_unfold ex_ids2_def initialize_def new_factory_def split: sum.splits)


section \<open>Enumerability of the installed members\<close>

lemma own_defineProperty:
  "own (defineProperty k v e t) k' = (if k' = k then Some (Prop k v e) else own t k')"
  by (induction t) auto

lemma keys_defineProperty: "pkey ` set (defineProperty k v e t) = insert k (pkey ` set t)"
  by (induction t) auto

lemma distinct_defineProperty:
  "distinct (map pkey t) \<Longrightarrow> distinct (map pkey (defineProperty k v e t))"
  by (induction t) (auto simp: keys_defineProperty)

lemma attribute_fold_put:
  "attribute (fold (\<lambda>p t. if penum p then put (pkey p) (pval p) t else t) src t) k =
     (case attribute t k of
        Some e \<Rightarrow> Some e
      | None \<Rightarrow> (case enum_entry src k of Some v \<Rightarrow> Some True | None \<Rightarrow> None))"
proof (induction src arbitrary: t)
  case Nil
  then show ?case by (simp split: option.splits)
next
  case (Cons p ps)
  then show ?case by (auto simp: attribute_put split: option.splits)
qed

lemma attribute_assign1:
  "attribute (assign1 t src) k =
     (case attribute t k of
        Some e \<Rightarrow> Some e
      | None \<Rightarrow> (case enum_entry src k of Some v \<Rightarrow> Some True | None \<Rightarrow> None))"
  by (simp add: assign1_def attribute_fold_put)

lemma attribute_Assign_keeps:
  "attribute t k = Some e \<Longrightarrow> attribute (Assign t srcs) k = Some e"
  unfolding Assign_def
  by (induction srcs arbitrary: t) (simp_all add: attribute_assign1)

lemma installed_initialize: "installed (prototype (initialize (new_factory ids dp)))"
  by (simp add: installed_def initialize_def new_factory_def attribute_def)

lemma installed_concatenate:
  "installed (prototype f) \<Longrightarrow> installed (prototype (state_of (concatenate pg h f ds)))"
  unfolding concatenate_unfold
  by (auto simp: installed_def attribute_Assign_keeps Assign_invariants split: sum.splits)

lemma installed_Deco: "installed (prototype (state_of (Deco pg h ids dp ds)))"
  unfolding Deco_def by (intro installed_concatenate installed_initialize)

lemma installed_not_enumerable:
  assumes "installed t" and "k = ''constructor'' \<or> k = ''defaults''"
  shows "attribute t k = Some False \<and> enum_entry t k = None"
proof -
  from assms have a: "attribute t k = Some False" and d: "distinct (map pkey t)"
    by (auto simp: installed_def)
  from a obtain p where "own t k = Some p" and "\<not> penum p"
    by (auto simp: attribute_def)
  with d a show ?thesis by (simp add: enum_entry_distinct)
qed

lemma Deco_empty:
  "Deco pg h ids dp [] = Normal () (initialize (new_factory ids dp))"
  by (simp add: Deco_def concatenate_unfold Assign_def)


text \<open>
  Claim C10. \<^verbatim>\<open>initialize\<close> defines \<^verbatim>\<open>constructor\<close> and \<^verbatim>\<open>defaults\<close> on the method table
  as non-enumerable entries, and they stay non-enumerable in every built factory,
  whatever the decorators; so applying the method table to an instance (\<open>Assign_to\<close>)
  leaves the instance's own \<^verbatim>\<open>constructor\<close> and \<^verbatim>\<open>defaults\<close> as they were: it never adds
  them. A factory built from no decorator returns, on a plain call, a new instance with no
  own property at all.
\<close>

theorem installed_members_are_not_enumerable:
  "attribute (prototype (initialize f)) ''constructor'' = Some False
   \<and> attribute (prototype (initialize f)) ''defaults'' = Some False
   \<and> entry (prototype (initialize f)) ''constructor'' = Some (Ref (constructor_fn f))
   \<and> entry (prototype (initialize f)) ''defaults'' = Some (Ref (defaults_fn f))
   \<and> (k = ''constructor'' \<or> k = ''defaults'' \<longrightarrow>
        attribute (prototype (state_of (Deco pg h ids dp ds))) k = Some False
        \<and> enum_entry (prototype (state_of (Deco pg h ids dp ds))) k = None
        \<and> attribute (props (cell (state_of
              (Assign_to (Ref a) [prototype (state_of (Deco pg h ids dp ds))] s)) a)) k =
            attribute (props (cell s a)) k)
   \<and> factory_call ap cn (state_of (Deco pg h ids dp [])) Undefined ps s =
       Normal (Ref (top s))
         (s\<lparr>cell := (cell s)(top s :=
              JSObj [] None (Some (prototype_object (state_of (Deco pg h ids dp []))))),
            top := Suc (top s)\<rparr>)
   \<and> props (cell (state_of (factory_call ap cn (state_of (Deco pg h ids dp [])) Undefined ps s))
        (top s)) = []"
proof -
  have i: "attribute (prototype (initialize f)) ''constructor'' = Some False
      \<and> attribute (prototype (initialize f)) ''defaults'' = Some False
      \<and> entry (prototype (initialize f)) ''constructor'' = Some (Ref (constructor_fn f))
      \<and> entry (prototype (initialize f)) ''defaults'' = Some (Ref (defaults_fn f))"
    by (simp add: initialize_def attribute_def entry_def own_defineProperty)
  have d: "attribute (prototype (state_of (Deco pg h ids dp ds))) k = Some False
        \<and> enum_entry (prototype (state_of (Deco pg h ids dp ds))) k = None
        \<and> attribute (props (cell (state_of
              (Assign_to (Ref a) [prototype (state_of (Deco pg h ids dp ds))] s)) a)) k =
            attribute (props (cell s a)) k"
    if k: "k = ''constructor'' \<or> k = ''defaults''"
  proof -
    from installed_not_enumerable [OF installed_Deco k]
    have n: "attribute (prototype (state_of (Deco pg h ids dp ds))) k = Some False
        \<and> enum_entry (prototype (state_of (Deco pg h ids dp ds))) k = None" .
    then show ?thesis
      by (simp add: Assign_to_Ref attribute_assign1 split: option.splits)
  qed
  have c: "factory_call ap cn (state_of (Deco pg h ids dp [])) Undefined ps s =
       Normal (Ref (top s))
         (s\<lparr>cell := (cell s)(top s :=
              JSObj [] None (Some (prototype_object (state_of (Deco pg h ids dp []))))),
            top := Suc (top s)\<rparr>)"
    by (simp add: Deco_empty factory_call_def prototype_object_def create_def
        factoryConstructor_def initialize_def new_factory_def Let_def)
  from i d c show ?thesis by simp
qed

theorem installed_members_witness:
  "attribute (prototype (state_of (Deco ex_pg ex_heap ex_ids ex_base [Ref 4]))) ''constructor'' =
     Some False
   \<and> entry (prototype (state_of (Deco ex_pg ex_heap ex_ids ex_base [Ref 4]))) ''constructor'' =
       Some (Ref 11)
   \<and> attribute (props (cell (state_of (Assign_to (Ref 2)
        [prototype (state_of (Deco ex_pg ex_heap ex_ids ex_base [Ref 4]))] ex_heap)) 2))
        ''constructor'' = None
   \<and> returned (factory_call ex_apply ex_construct (state_of (Deco ex_pg ex_heap ex_ids ex_base []))
        Undefined [] ex_heap) = Some (Ref 30)"
proof -
  have e: "entry (prototype (state_of (Deco ex_pg ex_heap ex_ids ex_base [Ref 4]))) ''constructor'' =
       Some (Ref 11)"
    by (simp add: Deco_def concatenate_unfold ex_initializer_of ex_defaults_of ex_template_of
        ex_cells initialize_def new_factory_def Assign_def assign1_def entry_def)
  have a: "attribute (props (cell ex_heap 2)) ''constructor'' = None"
    by (simp add: ex_cells attribute_def)
  from e a
    installed_members_are_not_enumerable
      [of _ "''constructor''" ex_pg ex_heap ex_ids ex_base "[Ref 4]" 2 ex_heap ex_apply
        ex_construct "[]"]
  show ?thesis by (simp add: ex_cells)
qed

end
